theory Spec2Isabelle
  imports Main
begin

section \<open>JavaScript values\<close>

text \<open>
  The strategy is JavaScript: its branches test truthiness, its callbacks receive
  \<open>null\<close> or \<open>undefined\<close>, and reading a property of \<open>undefined\<close> raises.
  Values are modelled as far as the strategy inspects them. \<open>Obj\<close> is a plain object
  given by its properties, \<open>Native\<close> a built-in function or object known by name only.
  The last four constructors are the error objects: \<open>JsError\<close> is \<open>new Error(message)\<close>,
  and \<open>TypeError\<close> and \<open>ReferenceError\<close> carry the name the engine could not read
  (the engine's message text differs between versions).
\<close>

text \<open>
  Modelled from the spec: the error class of \<open>./errors/internalopenamerror\<close> is not
  among the sources. The spec calls it the provider-specific error kind that wraps the
  underlying cause: the constructor \<open>InternalOpenAmError message cause\<close> is the value
  of \<open>new InternalOpenAmError(message, cause)\<close>.
\<close>

datatype jsval =
    Undefined
  | Null
  | Bool bool
  | Num int
  | Str string
  | Obj "(string \<times> jsval) list"
  | Native string
  | JsError string
  | TypeError string
  | ReferenceError string
  | InternalOpenAmError string jsval

text \<open>What \<open>if (v)\<close> tests. Objects, functions and error objects are all truthy.\<close>

fun truthy :: "jsval \<Rightarrow> bool" where
  "truthy Undefined = False"
| "truthy Null = False"
| "truthy (Bool b) = b"
| "truthy (Num n) = (n \<noteq> 0)"
| "truthy (Str s) = (s \<noteq> [])"
| "truthy (Obj ps) = True"
| "truthy (Native n) = True"
| "truthy (JsError m) = True"
| "truthy (TypeError m) = True"
| "truthy (ReferenceError m) = True"
| "truthy (InternalOpenAmError m c) = True"

text \<open>
  \<open>v.k\<close>: the property of a plain object, \<open>undefined\<close> when it has none of that
  name. The names the strategy reads (\<open>error\<close>, \<open>code\<close>, \<open>tokenid\<close>, \<open>uid\<close>, \<open>cn\<close>,
  \<open>sn\<close>, \<open>givenname\<close>, \<open>mail\<close>) are not properties of a primitive, of a function or
  of an error object, so on these the read gives \<open>undefined\<close>. On \<open>undefined\<close> and
  \<open>null\<close> it raises a TypeError (\<open>Inl\<close>).
\<close>

fun get_prop :: "jsval \<Rightarrow> string \<Rightarrow> jsval + jsval" where
  "get_prop Undefined k = Inl (TypeError k)"
| "get_prop Null k = Inl (TypeError k)"
| "get_prop (Obj ps) k = Inr (case map_of ps k of Some v \<Rightarrow> v | None \<Rightarrow> Undefined)"
| "get_prop v k = Inr Undefined"

section \<open>Requests, outcomes and traces\<close>

text \<open>
  Of a request the strategy reads \<open>req.query\<close> (\<open>undefined\<close> when no query parser ran)
  and \<open>req.headers.cookie\<close> (\<open>None\<close> when the request has no Cookie header).
\<close>

record request =
  query :: jsval
  headers_cookie :: "string option"

text \<open>
  What one invocation does is the trace of its observable steps, in order: the four
  outcome channels of the Passport base class (\<open>redirect\<close>, \<open>success\<close>, \<open>fail\<close>,
  \<open>error\<close>), the calls to the OpenAM client and to the application's verify function,
  and an assignment to the global variable \<open>callbackURL\<close>. A run is its trace together
  with the exception that ended it, if one escaped.
\<close>

datatype event =
    Redirect string
  | Success jsval jsval
  | Fail jsval
  | Error jsval
  | IsTokenValid_call jsval
  | GetAttributes_call jsval
  | Verify_call request jsval jsval
  | Global_callbackURL_assigned string

type_synonym run = "event list \<times> jsval option"

definition emit :: "event list \<Rightarrow> run \<Rightarrow> run" where
  "emit evs r = (evs @ fst r, snd r)"

fun is_outcome :: "event \<Rightarrow> bool" where
  "is_outcome (Redirect l) = True"
| "is_outcome (Success u i) = True"
| "is_outcome (Fail i) = True"
| "is_outcome (Error e) = True"
| "is_outcome ev = False"

definition outcomes :: "run \<Rightarrow> event list" where
  "outcomes r = filter is_outcome (fst r)"

fun is_getAttributes :: "event \<Rightarrow> bool" where
  "is_getAttributes (GetAttributes_call t) = True"
| "is_getAttributes ev = False"

fun verify_profile :: "event \<Rightarrow> jsval list" where
  "verify_profile (Verify_call req token profile) = [profile]"
| "verify_profile ev = []"

text \<open>How often the attribute fetch was invoked, and the profiles verify was invoked with.\<close>

definition getAttributes_calls :: "run \<Rightarrow> nat" where
  "getAttributes_calls r = length (filter is_getAttributes (fst r))"

definition verify_profiles :: "run \<Rightarrow> jsval list" where
  "verify_profiles r = concat (map verify_profile (fst r))"

section \<open>Collaborators\<close>

text \<open>The OpenAM client object, \<open>new OpenAm(baseUrl, realm, cookieName)\<close>.\<close>

record openam =
  baseUrl :: string
  realm :: string
  cookieName :: string

text \<open>
  The callback handed to \<open>isTokenValid\<close> is an ordinary function expression, so its
  \<open>this\<close> is whatever the client calls it on: \<open>Other_object\<close> is the global object
  of a plain call \<open>callback(valid)\<close> or any object that is not the strategy,
  \<open>Strategy_object\<close> the strategy itself.
\<close>

datatype receiver = Other_object | Strategy_object

text \<open>
  Everything outside the strategy's file is a parameter. Node's \<open>url\<close> module:
  \<open>url_parse_protocol u\<close> is \<open>url.parse(u).protocol\<close> (\<open>None\<close> for null) and
  \<open>url_resolve\<close> is \<open>url.resolve\<close>. \<open>originalURL\<close> is the helper of \<open>./utils\<close>
  (\<open>Inl\<close> when it raises). \<open>global_callbackURL\<close> is the global variable
  \<open>callbackURL\<close>, \<open>None\<close> when nothing declared it. The OpenAM client answers through
  callbacks, each invoked once: \<open>isTokenValid\<close> gives the argument of its callback and
  the receiver it calls it on, \<open>getAttributes\<close> the pair \<open>(err, data)\<close>.
\<close>

record env =
  url_parse_protocol :: "string \<Rightarrow> string option"
  url_resolve :: "string \<Rightarrow> string \<Rightarrow> string"
  originalURL :: "request \<Rightarrow> jsval + string"
  global_callbackURL :: "string option"
  isTokenValid :: "openam \<Rightarrow> jsval \<Rightarrow> jsval \<times> receiver"
  getAttributes :: "openam \<Rightarrow> jsval \<Rightarrow> jsval \<times> jsval"
  getLoginUiUrl :: "openam \<Rightarrow> (string \<times> jsval) list \<Rightarrow> string"

text \<open>
  The application's verify function, called with \<open>(req, token, profile, continuation)\<close>:
  the triples \<open>(err, user, info)\<close> it calls the continuation with, in order, and the
  exception it raises afterwards, if any.
\<close>

record verify_reply =
  v_calls :: "(jsval \<times> jsval \<times> jsval) list"
  v_throws :: "jsval option"

text \<open>
  The option \<open>skipUserProfile\<close>: a plain value, a function of at most one parameter
  (called with no argument: the value it returns, or \<open>Inl\<close> the exception it raises),
  or a function of two or more parameters (called with the token and a callback: the
  pair \<open>(err, skip)\<close> it reports to the callback, or \<open>Inl\<close> the exception it raises
  instead).
\<close>

datatype skip_option =
    Skip_value jsval
  | Skip_sync "jsval + jsval"
  | Skip_async "jsval \<Rightarrow> jsval + jsval \<times> jsval"

section \<open>The strategy object and its constructor\<close>

text \<open>
  The fields the constructor sets on \<open>this\<close> (\<open>self_verify\<close> is \<open>this._verify\<close>, and so
  on), and the options it reads; an option that is \<open>undefined\<close> is \<open>None\<close>. The
  constructor raises (\<open>Inl\<close>) when \<open>openAmBaseUrl\<close> or \<open>callbackUrl\<close> is missing or
  empty.
\<close>

record strategy =
  strategy_name :: string
  self_verify :: "request \<Rightarrow> jsval \<Rightarrow> jsval \<Rightarrow> verify_reply"
  self_openAmRealm :: string
  self_openAmCookieName :: string
  self_openam :: openam
  self_callbackUrl :: string
  self_skipUserProfile :: skip_option
  self_openAmLoginPage :: jsval

record strategy_options =
  options_openAmBaseUrl :: "string option"
  options_callbackUrl :: "string option"
  options_openAmRealm :: "string option"
  options_openAmCookieName :: "string option"
  options_skipUserProfile :: "skip_option option"
  options_openAmLoginPage :: "jsval option"

definition no_options :: strategy_options where
  "no_options =
     \<lparr>options_openAmBaseUrl = None, options_callbackUrl = None, options_openAmRealm = None,
      options_openAmCookieName = None, options_skipUserProfile = None,
      options_openAmLoginPage = None\<rparr>"

definition OpenAmStrategy ::
  "strategy_options option \<Rightarrow> (request \<Rightarrow> jsval \<Rightarrow> jsval \<Rightarrow> verify_reply)
     \<Rightarrow> jsval + strategy" where
  "OpenAmStrategy options0 verify =
     (let options = (case options0 of None \<Rightarrow> no_options | Some opts \<Rightarrow> opts) in
      case options_openAmBaseUrl options of
        None \<Rightarrow> Inl (JsError ''OpenAmStrategy requires a openAmBaseUrl option'')
      | Some base \<Rightarrow>
          if base = [] then Inl (JsError ''OpenAmStrategy requires a openAmBaseUrl option'')
          else
            (case options_callbackUrl options of
               None \<Rightarrow> Inl (JsError ''OpenAmStrategy requires a callbackUrl option'')
             | Some cb \<Rightarrow>
                 if cb = [] then Inl (JsError ''OpenAmStrategy requires a callbackUrl option'')
                 else
                   (let openAmRealm' =
                          (case options_openAmRealm options of None \<Rightarrow> ''/'' | Some r \<Rightarrow> r);
                        openAmCookieName' =
                          (case options_openAmCookieName options of
                             None \<Rightarrow> ''iPlanetDirectoryPro'' | Some c \<Rightarrow> c)
                    in Inr
                      \<lparr>strategy_name = ''openam'',
                       self_verify = verify,
                       self_openAmRealm = openAmRealm',
                       self_openAmCookieName = openAmCookieName',
                       self_openam =
                         \<lparr>baseUrl = base, realm = openAmRealm', cookieName = openAmCookieName'\<rparr>,
                       self_callbackUrl = cb,
                       self_skipUserProfile =
                         (case options_skipUserProfile options of
                            None \<Rightarrow> Skip_value (Bool False) | Some s \<Rightarrow> s),
                       self_openAmLoginPage =
                         (case options_openAmLoginPage options of
                            None \<Rightarrow> Bool True | Some p \<Rightarrow> p)\<rparr>)))"

section \<open>The cookie header\<close>

text \<open>
  \<open>s.split(c)\<close> for a separator of one character: the pieces between the separators,
  at least one piece (\<open>"".split(";")\<close> is \<open>[""]\<close>).
\<close>

fun js_split :: "char \<Rightarrow> string \<Rightarrow> string list" where
  "js_split c [] = [[]]"
| "js_split c (x # xs) =
     (if x = c then [] # js_split c xs
      else (case js_split c xs of [] \<Rightarrow> [[x]] | p # ps \<Rightarrow> (x # p) # ps))"

text \<open>
  \<open>s.trim()\<close>. A header reaches the strategy one character per byte, so the white space
  of JavaScript is tab, line feed, vertical tab, form feed, carriage return, space and
  the no-break space.
\<close>

definition is_space :: "char \<Rightarrow> bool" where
  "is_space c = (c \<in> set [CHR 0x09, CHR 0x0A, CHR 0x0B, CHR 0x0C, CHR 0x0D, CHR 0x20, CHR 0xA0])"

definition js_trim :: "string \<Rightarrow> string" where
  "js_trim s = rev (dropWhile is_space (rev (dropWhile is_space s)))"

text \<open>
  The body of the \<open>forEach\<close>: \<open>cookies[parts[0].trim()] = (parts[1] || '').trim()\<close>.
  \<open>cookies\<close> starts as \<open>{}\<close>, an object that inherits from \<open>Object.prototype\<close>:
  assigning a string to its \<open>__proto__\<close> changes nothing, and reading a name it does
  not own gives the inherited member when \<open>Object.prototype\<close> has one.
\<close>

definition set_cookie :: "(string \<rightharpoonup> string) \<Rightarrow> string \<Rightarrow> (string \<rightharpoonup> string)" where
  "set_cookie cookies cookie =
     (case js_split CHR ''='' cookie of
        [] \<Rightarrow> cookies
      | p0 # rest \<Rightarrow>
          (let v = js_trim (case rest of [] \<Rightarrow> [] | p1 # ps \<Rightarrow> p1) in
           if js_trim p0 = ''__proto__'' then cookies else cookies(js_trim p0 \<mapsto> v)))"

definition parse_cookies :: "string \<Rightarrow> (string \<rightharpoonup> string)" where
  "parse_cookies header =
     fold (\<lambda>cookie cookies. set_cookie cookies cookie) (js_split CHR '';'' header) Map.empty"

definition object_prototype_keys :: "string list" where
  "object_prototype_keys =
     [''constructor'', ''toString'', ''toLocaleString'', ''valueOf'', ''hasOwnProperty'',
      ''isPrototypeOf'', ''propertyIsEnumerable'', ''__proto__'', ''__defineGetter__'',
      ''__defineSetter__'', ''__lookupGetter__'', ''__lookupSetter__'']"

definition cookies_get :: "(string \<rightharpoonup> string) \<Rightarrow> string \<Rightarrow> jsval" where
  "cookies_get cookies k =
     (case cookies k of
        Some v \<Rightarrow> Str v
      | None \<Rightarrow> if k \<in> set object_prototype_keys then Native k else Undefined)"

section \<open>Profile\<close>

text \<open>
  The \<open>try\<close> block of \<open>userProfile\<close> up to the call of \<open>done\<close>: the profile object
  built from the attributes, or the exception the first property read raises.
\<close>

definition build_profile :: "jsval \<Rightarrow> jsval + jsval" where
  "build_profile data =
     (case get_prop data ''tokenid'' of Inl e \<Rightarrow> Inl e | Inr tokenid \<Rightarrow>
      case get_prop data ''uid'' of Inl e \<Rightarrow> Inl e | Inr uid \<Rightarrow>
      case get_prop data ''cn'' of Inl e \<Rightarrow> Inl e | Inr cn \<Rightarrow>
      case get_prop data ''sn'' of Inl e \<Rightarrow> Inl e | Inr sn \<Rightarrow>
      case get_prop data ''givenname'' of Inl e \<Rightarrow> Inl e | Inr givenname \<Rightarrow>
      case get_prop data ''mail'' of Inl e \<Rightarrow> Inl e | Inr mail \<Rightarrow>
        Inr (Obj
          [(''id'', tokenid),
           (''username'', uid),
           (''displayName'', cn),
           (''name'', Obj [(''familyName'', sn), (''givenName'', givenname)]),
           (''email'', mail),
           (''_raw'', data)]))"

text \<open>
  \<open>userProfile(token, done)\<close>. The call \<open>done(null, profile)\<close> stands inside the
  \<open>try\<close>, so an exception that escapes it is caught and \<open>done\<close> is called again,
  with that exception.
\<close>

definition userProfile :: "env \<Rightarrow> strategy \<Rightarrow> jsval \<Rightarrow> (jsval \<times> jsval \<Rightarrow> run) \<Rightarrow> run" where
  "userProfile E self token done =
     emit [GetAttributes_call token]
       (case getAttributes E (self_openam self) token of
          (err, data) \<Rightarrow>
            if truthy err
            then done (InternalOpenAmError ''failed to get attributes'' err, Undefined)
            else
              (case build_profile data of
                 Inl e \<Rightarrow> done (e, Undefined)
               | Inr profile \<Rightarrow>
                   (case done (Null, profile) of
                      (evs, None) \<Rightarrow> (evs, None)
                    | (evs, Some e) \<Rightarrow> emit evs (done (e, Undefined)))))"

text \<open>
  \<open>_loadUserProfile(token, done)\<close>; \<open>skipIt\<close> is \<open>done(null)\<close>. Both calls of the
  \<open>skipUserProfile\<close> function stand outside any \<open>try\<close>: an exception it raises
  leaves \<open>_loadUserProfile\<close> before \<open>done\<close> is called.
\<close>

definition loadUserProfile :: "env \<Rightarrow> strategy \<Rightarrow> jsval \<Rightarrow> (jsval \<times> jsval \<Rightarrow> run) \<Rightarrow> run" where
  "loadUserProfile E self token done =
     (case self_skipUserProfile self of
        Skip_async f \<Rightarrow>
          (case f token of
             Inl e \<Rightarrow> ([], Some e)
           | Inr (err, skip) \<Rightarrow>
               if truthy err then done (err, Undefined)
               else if \<not> truthy skip then userProfile E self token done
               else done (Null, Undefined))
      | Skip_sync result \<Rightarrow>
          (case result of
             Inl e \<Rightarrow> ([], Some e)
           | Inr skip \<Rightarrow>
               if \<not> truthy skip then userProfile E self token done
               else done (Null, Undefined))
      | Skip_value skip \<Rightarrow>
          (if \<not> truthy skip then userProfile E self token done else done (Null, Undefined)))"

section \<open>authenticate\<close>

text \<open>The continuation handed to verify: \<open>function(err, user, info)\<close>.\<close>

fun verified :: "jsval \<times> jsval \<times> jsval \<Rightarrow> event" where
  "verified (err, user, info) =
     (if truthy err then Error err
      else if \<not> truthy user then Fail info
      else Success user info)"

text \<open>The callback handed to \<open>_loadUserProfile\<close>: \<open>function(err, profile)\<close>.\<close>

fun profile_loaded :: "strategy \<Rightarrow> request \<Rightarrow> jsval \<Rightarrow> jsval \<times> jsval \<Rightarrow> run" where
  "profile_loaded self req token (err, profile) =
     (if truthy err then ([Error err], None)
      else
        (let reply = self_verify self req token profile in
         (Verify_call req token profile # map verified (v_calls reply), v_throws reply)))"

text \<open>\<open>req.query && req.query[k]\<close>.\<close>

definition query_param :: "request \<Rightarrow> string \<Rightarrow> jsval" where
  "query_param req k =
     (if truthy (query req)
      then (case get_prop (query req) k of Inr v \<Rightarrow> v | Inl e \<Rightarrow> Undefined)
      else query req)"

record auth_options =
  auth_callbackUrl :: "string option"

text \<open>\<open>options.callbackUrl || this._callbackUrl\<close>, with \<open>options = options || {}\<close>.\<close>

definition effective_callbackUrl :: "strategy \<Rightarrow> auth_options option \<Rightarrow> string" where
  "effective_callbackUrl self options =
     (case options of
        None \<Rightarrow> self_callbackUrl self
      | Some opts \<Rightarrow>
          (case auth_callbackUrl opts of
             None \<Rightarrow> self_callbackUrl self
           | Some u \<Rightarrow> if u = [] then self_callbackUrl self else u))"

text \<open>\<open>!s\<close> for a string that may be null.\<close>

fun missing :: "string option \<Rightarrow> bool" where
  "missing None = True"
| "missing (Some s) = (s = [])"

text \<open>
  The block \<open>if (callbackUrl) { ... }\<close>. Its assignment is to \<open>callbackURL\<close>, which is
  not the local \<open>callbackUrl\<close> and is declared nowhere in the file: evaluating the right
  side calls \<open>utils.originalURL(req)\<close> and then reads \<open>callbackURL\<close>, which raises a
  ReferenceError unless a global of that name exists; if one exists, it is the global
  that is assigned.
\<close>

definition qualify_callbackUrl :: "env \<Rightarrow> request \<Rightarrow> string \<Rightarrow> run" where
  "qualify_callbackUrl E req callbackUrl =
     (if callbackUrl = [] then ([], None)
      else if \<not> missing (url_parse_protocol E callbackUrl) then ([], None)
      else
        (case originalURL E req of
           Inl e \<Rightarrow> ([], Some e)
         | Inr original \<Rightarrow>
             (case global_callbackURL E of
                None \<Rightarrow> ([], Some (ReferenceError ''callbackURL''))
              | Some g \<Rightarrow> ([Global_callbackURL_assigned (url_resolve E original g)], None))))"

text \<open>The login redirect, built the same way in both places of the source.\<close>

definition login_location :: "env \<Rightarrow> openam \<Rightarrow> string \<Rightarrow> string" where
  "login_location E client callbackUrl =
     getLoginUiUrl E client [(''goto'', Str (callbackUrl @ ''?code=true''))]"

text \<open>The callback handed to \<open>isTokenValid\<close>: \<open>function(bool)\<close>, called on \<open>this\<close>.\<close>

definition token_checked ::
  "env \<Rightarrow> strategy \<Rightarrow> request \<Rightarrow> string \<Rightarrow> jsval \<Rightarrow> jsval \<times> receiver \<Rightarrow> run" where
  "token_checked E self req callbackUrl token answer =
     (case answer of
        (valid, this) \<Rightarrow>
          if truthy valid
          then loadUserProfile E self token (profile_loaded self req token)
          else
            (case this of
               Other_object \<Rightarrow> ([], Some (TypeError ''getLoginUiUrl''))
             | Strategy_object \<Rightarrow>
                 ([Redirect (login_location E (self_openam self) callbackUrl)], None)))"

text \<open>
  \<open>authenticate(req, options)\<close>, statement by statement: the \<open>error\<close> parameter, the
  callback URL, then the \<open>code\<close> parameter with the cookies and the validity check, or
  else the redirect. Where the session cookie is missing or empty the source has no
  statement, and the invocation returns.
\<close>

definition authenticate :: "env \<Rightarrow> strategy \<Rightarrow> request \<Rightarrow> auth_options option \<Rightarrow> run" where
  "authenticate E self req options =
     (if truthy (query_param req ''error'') then ([Fail Undefined], None)
      else
        (let callbackUrl = effective_callbackUrl self options in
         case qualify_callbackUrl E req callbackUrl of
           (evs, Some e) \<Rightarrow> (evs, Some e)
         | (evs, None) \<Rightarrow>
             emit evs
               (if truthy (query_param req ''code'')
                then
                  (case headers_cookie req of
                     None \<Rightarrow> ([], Some (TypeError ''split''))
                   | Some header \<Rightarrow>
                       (let cookies = parse_cookies header;
                            token = cookies_get cookies (self_openAmCookieName self) in
                        if truthy token
                        then
                          emit [IsTokenValid_call token]
                            (token_checked E self req callbackUrl token
                               (isTokenValid E (self_openam self) token))
                        else ([], None)))
                else ([Redirect (login_location E (self_openam self) callbackUrl)], None))))"

section \<open>What profile resolution hands on\<close>

text \<open>
  The callbacks of the source read in direct style, for the statements below.
  \<open>skip_resolution\<close> is the pair \<open>(err, skip)\<close> that \<open>_loadUserProfile\<close> decides on
  (a value or a synchronous function reports no error), or \<open>Inl\<close> the exception that
  the \<open>skipUserProfile\<close> function raises. \<open>resolved_profile\<close> is how profile
  resolution ends: \<open>Raised\<close> with an exception of the \<open>skipUserProfile\<close> function,
  before the callback is called, or with what the callback is first handed, \<open>Failed\<close>
  with an error or \<open>Resolved\<close> with a profile, which is \<open>undefined\<close> when the fetch is
  skipped. \<open>fetches\<close> says whether \<open>userProfile\<close> is reached. Lemmas
  \<open>loadUserProfile_raised\<close>, \<open>loadUserProfile_failed\<close> and
  \<open>loadUserProfile_resolved\<close> relate them to the model of the source.
\<close>

definition skip_resolution :: "strategy \<Rightarrow> jsval \<Rightarrow> jsval + jsval \<times> jsval" where
  "skip_resolution self token =
     (case self_skipUserProfile self of
        Skip_async f \<Rightarrow> f token
      | Skip_sync result \<Rightarrow> (case result of Inl e \<Rightarrow> Inl e | Inr skip \<Rightarrow> Inr (Null, skip))
      | Skip_value skip \<Rightarrow> Inr (Null, skip))"

datatype resolution = Raised jsval | Failed jsval | Resolved jsval

definition resolved_profile :: "env \<Rightarrow> strategy \<Rightarrow> jsval \<Rightarrow> resolution" where
  "resolved_profile E self token =
     (case skip_resolution self token of
        Inl e \<Rightarrow> Raised e
      | Inr (serr, skip) \<Rightarrow>
          if truthy serr then Failed serr
          else if truthy skip then Resolved Undefined
          else
            (case getAttributes E (self_openam self) token of
               (gerr, data) \<Rightarrow>
                 if truthy gerr
                 then Failed (InternalOpenAmError ''failed to get attributes'' gerr)
                 else (case build_profile data of Inl e \<Rightarrow> Failed e | Inr p \<Rightarrow> Resolved p)))"

definition fetches :: "strategy \<Rightarrow> jsval \<Rightarrow> bool" where
  "fetches self token =
     (case skip_resolution self token of
        Inl e \<Rightarrow> False
      | Inr (serr, skip) \<Rightarrow> \<not> truthy serr \<and> \<not> truthy skip)"

text \<open>
  The requests that reach profile resolution with the session token \<open>token\<close>: no
  \<open>error\<close> parameter, a \<open>code\<close> parameter, an effective callback URL with a protocol
  (so that the block that qualifies a relative URL is not entered), a Cookie header
  whose parsed cookies hold a truthy value under the configured name, and a client
  that reports this token valid.
\<close>

definition valid_token_request ::
  "env \<Rightarrow> strategy \<Rightarrow> request \<Rightarrow> auth_options option \<Rightarrow> jsval \<Rightarrow> bool" where
  "valid_token_request E self req options token \<longleftrightarrow>
     \<not> truthy (query_param req ''error'') \<and>
     truthy (query_param req ''code'') \<and>
     \<not> missing (url_parse_protocol E (effective_callbackUrl self options)) \<and>
     (case headers_cookie req of
        None \<Rightarrow> False
      | Some header \<Rightarrow> cookies_get (parse_cookies header) (self_openAmCookieName self) = token) \<and>
     truthy token \<and>
     truthy (fst (isTokenValid E (self_openam self) token))"

section \<open>A sample deployment\<close>

text \<open>
  Concrete collaborators, to run the strategy on concrete requests; the general
  theorems do not depend on them. \<open>url_protocol\<close> stands in for the protocol of
  Node's \<open>url.parse\<close>: a run of letters, digits, \<open>.\<close>, \<open>+\<close> and \<open>-\<close> before a
  colon. It neither trims its input nor lower-cases the protocol, as Node does; the
  samples use it on lower-case URLs without surrounding white space. \<open>url_origin\<close>
  serves a stand-in for \<open>url.resolve\<close> on a path that starts with a slash and has no
  dot segments (it does not normalise them).
\<close>

definition scheme_chars :: string where
  "scheme_chars = ''abcdefghijklmnopqrstuvwxyzABCDEFGHIJKLMNOPQRSTUVWXYZ0123456789.+-''"

definition url_protocol :: "string \<Rightarrow> string option" where
  "url_protocol u =
     (let scheme = takeWhile (\<lambda>c. c \<in> set scheme_chars) u in
      if scheme \<noteq> [] \<and> take 1 (drop (length scheme) u) = '':''
      then Some (scheme @ '':'') else None)"

definition url_origin :: "string \<Rightarrow> string" where
  "url_origin u =
     (let scheme = takeWhile (\<lambda>c. c \<noteq> CHR ''/'') u;
          rest = drop (length scheme + 2) u
      in scheme @ ''//'' @ takeWhile (\<lambda>c. c \<noteq> CHR ''/'') rest)"

text \<open>
  \<open>encodeURIComponent\<close> on ASCII characters. (A code point above 0x7F, which
  \<open>encodeURIComponent\<close> encodes as its UTF-8 bytes, does not occur in the samples.)
\<close>

definition unreserved :: string where
  "unreserved =
     ''ABCDEFGHIJKLMNOPQRSTUVWXYZabcdefghijklmnopqrstuvwxyz0123456789-_.!~*()'' @ [CHR 0x27]"

definition hex_digit :: "nat \<Rightarrow> char" where
  "hex_digit n = ''0123456789ABCDEF'' ! (n mod 16)"

definition escape_char :: "char \<Rightarrow> string" where
  "escape_char c =
     (if c \<in> set unreserved then [c]
      else [CHR ''%'', hex_digit (of_char c div 16), hex_digit (of_char c)])"

definition uri_escape :: "string \<Rightarrow> string" where
  "uri_escape s = concat (map escape_char s)"

text \<open>
  Modelled from the spec: \<open>getLoginUiUrl\<close> belongs to the OpenAM client, a package of
  its own whose code is not among the sources. The spec gives the redirect URL as
  \<open><providerLoginUiUrl>?goto=<callbackUrl>%3Fcode%3Dtrue\<close>, the \<open>goto\<close> parameter
  URL-encoded; the login UI is taken to be \<open>UI/Login\<close> under the base URL, and no
  parameter other than \<open>goto\<close> is written.
\<close>

definition spec_getLoginUiUrl :: "openam \<Rightarrow> (string \<times> jsval) list \<Rightarrow> string" where
  "spec_getLoginUiUrl client params =
     baseUrl client @ ''UI/Login?goto='' @
       (case map_of params ''goto'' of Some (Str g) \<Rightarrow> uri_escape g | _ \<Rightarrow> [])"

definition bob_attributes :: jsval where
  "bob_attributes =
     Obj [(''tokenid'', Str ''t1''), (''uid'', Str ''bob''), (''cn'', Str ''Bob Smith''),
          (''sn'', Str ''Smith''), (''givenname'', Str ''Bob''), (''mail'', Str ''bob@x.com'')]"

definition bob_profile :: jsval where
  "bob_profile =
     Obj [(''id'', Str ''t1''), (''username'', Str ''bob''), (''displayName'', Str ''Bob Smith''),
          (''name'', Obj [(''familyName'', Str ''Smith''), (''givenName'', Str ''Bob'')]),
          (''email'', Str ''bob@x.com''), (''_raw'', bob_attributes)]"

text \<open>
  The client knows one session, \<open>tok123\<close>, which is Bob's, and calls its callbacks as
  plain functions. No global \<open>callbackURL\<close> exists.
\<close>

definition example_env :: env where
  "example_env =
     \<lparr>url_parse_protocol = url_protocol,
      url_resolve = (\<lambda>from to. url_origin from @ to),
      originalURL = (\<lambda>req. Inr ''http://app.example.net:3000/auth/openam''),
      global_callbackURL = None,
      isTokenValid = (\<lambda>client token. (Bool (token = Str ''tok123''), Other_object)),
      getAttributes =
        (\<lambda>client token.
           if token = Str ''tok123'' then (Null, bob_attributes)
           else (JsError ''no such token'', Undefined)),
      getLoginUiUrl = spec_getLoginUiUrl\<rparr>"

text \<open>
  A verify function that takes \<open>(req, token, profile, done)\<close> and accepts the profile
  as the user: \<open>done(null, profile)\<close>.
\<close>

definition example_verify :: "request \<Rightarrow> jsval \<Rightarrow> jsval \<Rightarrow> verify_reply" where
  "example_verify req token profile = \<lparr>v_calls = [(Null, profile, Undefined)], v_throws = None\<rparr>"

definition example_options :: strategy_options where
  "example_options =
     no_options
       \<lparr>options_openAmBaseUrl := Some ''http://sso.example.net/openam/'',
        options_callbackUrl := Some ''http://app.example.net:3000/auth/openam/callback''\<rparr>"

definition example_strategy :: strategy where
  "example_strategy =
     \<lparr>strategy_name = ''openam'',
      self_verify = example_verify,
      self_openAmRealm = ''/'',
      self_openAmCookieName = ''iPlanetDirectoryPro'',
      self_openam =
        \<lparr>baseUrl = ''http://sso.example.net/openam/'', realm = ''/'',
         cookieName = ''iPlanetDirectoryPro''\<rparr>,
      self_callbackUrl = ''http://app.example.net:3000/auth/openam/callback'',
      self_skipUserProfile = Skip_value (Bool False),
      self_openAmLoginPage = Bool True\<rparr>"

text \<open>
  Variations: one setting changed each. \<open>raising_skip_strategy\<close> has for
  \<open>skipUserProfile\<close> a function of one parameter that reads a property of its
  argument, such as \<open>function(token) { return token.length < 10 }\<close>: it is called
  with no argument and raises a TypeError.
\<close>

definition relative_strategy :: strategy where
  "relative_strategy = example_strategy\<lparr>self_callbackUrl := ''/auth/openam/callback''\<rparr>"

definition skipping_strategy :: strategy where
  "skipping_strategy = example_strategy\<lparr>self_skipUserProfile := Skip_value (Bool True)\<rparr>"

definition async_failing_strategy :: strategy where
  "async_failing_strategy =
     example_strategy
       \<lparr>self_skipUserProfile :=
          Skip_async (\<lambda>token. Inr (JsError ''lookup failed'', Undefined))\<rparr>"

definition raising_skip_strategy :: strategy where
  "raising_skip_strategy =
     example_strategy\<lparr>self_skipUserProfile := Skip_sync (Inl (TypeError ''length''))\<rparr>"

definition erring_strategy :: strategy where
  "erring_strategy =
     example_strategy
       \<lparr>self_verify :=
          (\<lambda>req token profile.
             \<lparr>v_calls = [(JsError ''database down'', Undefined, Undefined)], v_throws = None\<rparr>)\<rparr>"

definition throwing_strategy :: strategy where
  "throwing_strategy =
     example_strategy
       \<lparr>self_verify :=
          (\<lambda>req token profile.
             \<lparr>v_calls = [(Null, profile, Undefined)], v_throws = Some (JsError ''boom'')\<rparr>)\<rparr>"

definition failing_env :: env where
  "failing_env =
     example_env\<lparr>getAttributes := (\<lambda>client token. (JsError ''connect ECONNREFUSED'', Undefined))\<rparr>"

definition nullish_env :: env where
  "nullish_env = example_env\<lparr>getAttributes := (\<lambda>client token. (Null, Undefined))\<rparr>"

definition global_env :: env where
  "global_env = example_env\<lparr>global_callbackURL := Some ''/elsewhere''\<rparr>"

text \<open>
  Requests: the first visit (no query parameter, no cookie), and the return from the
  login page with \<open>?code=true\<close> and a given Cookie header.
\<close>

definition login_request :: request where
  "login_request = \<lparr>query = Obj [], headers_cookie = None\<rparr>"

definition callback_request :: "string option \<Rightarrow> request" where
  "callback_request cookie = \<lparr>query = Obj [(''code'', Str ''true'')], headers_cookie = cookie\<rparr>"

definition valid_cookie_request :: request where
  "valid_cookie_request = callback_request (Some ''iPlanetDirectoryPro=tok123; other=x'')"

section \<open>Basic facts\<close>

lemmas example_defs =
  example_env_def example_strategy_def example_verify_def login_request_def
  callback_request_def bob_attributes_def relative_strategy_def skipping_strategy_def
  failing_env_def global_env_def bob_profile_def valid_cookie_request_def
  async_failing_strategy_def nullish_env_def erring_strategy_def
  throwing_strategy_def raising_skip_strategy_def

lemmas url_defs =
  url_protocol_def scheme_chars_def url_origin_def spec_getLoginUiUrl_def uri_escape_def
  escape_char_def unreserved_def hex_digit_def

lemmas cookie_defs =
  parse_cookies_def set_cookie_def cookies_get_def js_trim_def is_space_def
  object_prototype_keys_def

lemmas run_defs =
  authenticate_def qualify_callbackUrl_def effective_callbackUrl_def query_param_def
  token_checked_def loadUserProfile_def userProfile_def build_profile_def login_location_def
  outcomes_def getAttributes_calls_def verify_profiles_def Let_def

lemma emit_pair [simp]: "emit evs (tr, x) = (evs @ tr, x)"
  by (simp add: emit_def)

lemma emit_Nil [simp]: "emit [] r = r"
  by (simp add: emit_def)

lemma emit_emit [simp]: "emit evs (emit evs' r) = emit (evs @ evs') r"
  by (simp add: emit_def)

lemma fst_emit [simp]: "fst (emit evs r) = evs @ fst r"
  by (simp add: emit_def)

lemma snd_emit [simp]: "snd (emit evs r) = snd r"
  by (simp add: emit_def)

text \<open>The constructor builds the sample strategy from its two required options.\<close>

lemma example_strategy_constructed:
  "OpenAmStrategy (Some example_options) example_verify = Inr example_strategy"
  by (simp add: OpenAmStrategy_def example_options_def no_options_def example_strategy_def
      Let_def)

text \<open>The scenario of the spec: the default cookie name finds \<open>tok123\<close>.\<close>

lemma cookie_header_scenario:
  "cookies_get (parse_cookies ''iPlanetDirectoryPro=tok123; other=x'') ''iPlanetDirectoryPro''
     = Str ''tok123''"
  by (simp add: cookie_defs)

text \<open>The mapping raises exactly on \<open>undefined\<close> and \<open>null\<close>, at its first read.\<close>

lemma build_profile_Inl:
  "build_profile data = Inl e \<longleftrightarrow> (data = Undefined \<or> data = Null) \<and> e = TypeError ''tokenid''"
  by (cases data) (auto simp: build_profile_def)

text \<open>On a plain object it never raises; an attribute that is absent maps to \<open>undefined\<close>.\<close>

lemma build_profile_Obj:
  "build_profile (Obj attributes) =
     (let attribute = (\<lambda>k. case map_of attributes k of Some v \<Rightarrow> v | None \<Rightarrow> Undefined) in
      Inr (Obj
        [(''id'', attribute ''tokenid''),
         (''username'', attribute ''uid''),
         (''displayName'', attribute ''cn''),
         (''name'', Obj [(''familyName'', attribute ''sn''), (''givenName'', attribute ''givenname'')]),
         (''email'', attribute ''mail''),
         (''_raw'', Obj attributes)]))"
  by (simp add: build_profile_def Let_def)

lemma build_profile_truthy: "build_profile data = Inl e \<Longrightarrow> truthy e"
  by (simp add: build_profile_Inl)

lemma resolved_profile_truthy: "resolved_profile E self token = Failed e \<Longrightarrow> truthy e"
  by (auto simp: resolved_profile_def build_profile_Inl
      split: prod.splits sum.splits if_splits)

lemma verified_event [simp]:
  "verify_profile (verified c) = []" "is_getAttributes (verified c) = False"
  "is_outcome (verified c) = True"
  by (cases c; simp)+

lemma verified_events [simp]:
  "concat (map verify_profile (map verified cs)) = []"
  "filter is_getAttributes (map verified cs) = []"
  "filter is_outcome (map verified cs) = map verified cs"
  by (induction cs) simp_all

lemma verified_not_Redirect [simp]: "verified c \<noteq> Redirect location"
  by (cases c) simp

subsection \<open>Profile resolution, in direct style\<close>

lemma loadUserProfile_skip:
  "loadUserProfile E self token done =
     (case skip_resolution self token of
        Inl e \<Rightarrow> ([], Some e)
      | Inr (serr, skip) \<Rightarrow>
          if truthy serr then done (serr, Undefined)
          else if \<not> truthy skip then userProfile E self token done
          else done (Null, Undefined))"
  by (simp add: loadUserProfile_def skip_resolution_def
      split: skip_option.splits prod.splits sum.splits)

lemma loadUserProfile_raised:
  assumes "resolved_profile E self token = Raised e"
  shows "loadUserProfile E self token done = ([], Some e)"
  using assms
  by (auto simp: loadUserProfile_skip resolved_profile_def
      split: prod.splits sum.splits if_splits)

lemma loadUserProfile_failed:
  assumes "resolved_profile E self token = Failed e"
  shows "loadUserProfile E self token done =
           emit (if fetches self token then [GetAttributes_call token] else []) (done (e, Undefined))"
  using assms
  by (auto simp: loadUserProfile_skip resolved_profile_def fetches_def userProfile_def
      split: prod.splits sum.splits if_splits)


text \<open>An event that the callback never emits is not emitted around it either.\<close>

lemma loadUserProfile_events:
  assumes "\<And>a. ev \<notin> set (fst (done a))"
    and "ev \<noteq> GetAttributes_call token"
  shows "ev \<notin> set (fst (loadUserProfile E self token done))"
proof -
  have twice: "ev \<notin> set (fst (case done a of
      (evs, None) \<Rightarrow> (evs, None) | (evs, Some e) \<Rightarrow> emit evs (done (e, Undefined))))" for a
    using assms(1) [of a] assms(1) [of "(the (snd (done a)), Undefined)"]
    by (cases "done a") (auto split: option.splits)
  show ?thesis
    using assms twice
    by (simp add: loadUserProfile_skip userProfile_def split: prod.splits sum.splits)
qed

lemma profile_loaded_no_Redirect:
  "Redirect location \<notin> set (fst (profile_loaded self req token a))"
  by (cases a) (auto simp: Let_def split: if_splits)

lemma loadUserProfile_no_Redirect:
  "Redirect location \<notin> set (fst (loadUserProfile E self token (profile_loaded self req token)))"
  by (rule loadUserProfile_events) (simp_all add: profile_loaded_no_Redirect)

subsection \<open>The branches of authenticate\<close>

lemma authenticate_valid_token:
  assumes "\<not> truthy (query_param req ''error'')"
    and "truthy (query_param req ''code'')"
    and "\<not> missing (url_parse_protocol E (effective_callbackUrl self options))"
    and "headers_cookie req = Some header"
    and "cookies_get (parse_cookies header) (self_openAmCookieName self) = token"
    and "truthy token"
    and "isTokenValid E (self_openam self) token = (valid, this)"
    and "truthy valid"
  shows "authenticate E self req options =
           emit [IsTokenValid_call token]
             (loadUserProfile E self token (profile_loaded self req token))"
  using assms
  by (simp add: authenticate_def qualify_callbackUrl_def token_checked_def Let_def)

lemma valid_token_requestD:
  assumes "valid_token_request E self req options token"
  obtains header valid this where
    "\<not> truthy (query_param req ''error'')"
    "truthy (query_param req ''code'')"
    "\<not> missing (url_parse_protocol E (effective_callbackUrl self options))"
    "headers_cookie req = Some header"
    "cookies_get (parse_cookies header) (self_openAmCookieName self) = token"
    "truthy token"
    "isTokenValid E (self_openam self) token = (valid, this)"
    "truthy valid"
  using assms
  by (cases "isTokenValid E (self_openam self) token")
     (auto simp: valid_token_request_def split: option.splits)

lemma authenticate_profile_resolution:
  assumes "valid_token_request E self req options token"
  shows "authenticate E self req options =
           emit [IsTokenValid_call token]
             (loadUserProfile E self token (profile_loaded self req token))"
  using assms by (elim valid_token_requestD) (rule authenticate_valid_token)

text \<open>
  Without a \<open>code\<close> parameter and with a callback URL that has a protocol, the one
  step is the redirect to the login page.
\<close>

lemma authenticate_no_code_absolute:
  assumes "\<not> truthy (query_param req ''error'')"
    and "\<not> truthy (query_param req ''code'')"
    and "\<not> missing (url_parse_protocol E (effective_callbackUrl self options))"
  shows "authenticate E self req options =
           ([Redirect (getLoginUiUrl E (self_openam self)
               [(''goto'', Str (effective_callbackUrl self options @ ''?code=true''))])], None)"
  using assms by (simp add: authenticate_def qualify_callbackUrl_def login_location_def Let_def)

lemma uri_escape_append: "uri_escape (u @ v) = uri_escape u @ uri_escape v"
  by (simp add: uri_escape_def)

lemma spec_getLoginUiUrl_goto:
  "spec_getLoginUiUrl client [(''goto'', Str (u @ ''?code=true''))] =
     baseUrl client @ ''UI/Login?goto='' @ uri_escape u @ ''%3Fcode%3Dtrue''"
proof -
  have "uri_escape ''?code=true'' = ''%3Fcode%3Dtrue''"
    by (simp add: uri_escape_def escape_char_def unreserved_def hex_digit_def)
  then show ?thesis
    by (simp add: spec_getLoginUiUrl_def uri_escape_append)
qed

lemma login_request_redirects:
  "authenticate example_env example_strategy login_request None =
     ([Redirect ''http://sso.example.net/openam/UI/Login?goto=http%3A%2F%2Fapp.example.net%3A3000%2Fauth%2Fopenam%2Fcallback%3Fcode%3Dtrue''],
      None)"
  by (simp add: run_defs example_defs url_defs)

text \<open>
  With a \<open>code\<close> parameter and a Cookie header that lacks the session cookie (or holds
  it with an empty value), nothing happens at all: the \<open>if\<close> on the cookie has no
  \<open>else\<close>.
\<close>

lemma authenticate_without_session_cookie:
  assumes "\<not> truthy (query_param req ''error'')"
    and "truthy (query_param req ''code'')"
    and "\<not> missing (url_parse_protocol E (effective_callbackUrl self options))"
    and "headers_cookie req = Some header"
    and "\<not> truthy (cookies_get (parse_cookies header) (self_openAmCookieName self))"
  shows "authenticate E self req options = ([], None)"
  using assms by (simp add: authenticate_def qualify_callbackUrl_def Let_def)

text \<open>
  An invalid token: the branch reads \<open>this._openam\<close>, not \<open>self._openam\<close>, so it
  redirects only if the client calls the callback on the strategy itself.
\<close>

lemma authenticate_invalid_token:
  assumes "\<not> truthy (query_param req ''error'')"
    and "truthy (query_param req ''code'')"
    and "\<not> missing (url_parse_protocol E (effective_callbackUrl self options))"
    and "headers_cookie req = Some header"
    and "cookies_get (parse_cookies header) (self_openAmCookieName self) = token"
    and "truthy token"
    and "isTokenValid E (self_openam self) token = (valid, this)"
    and "\<not> truthy valid"
  shows "authenticate E self req options =
           (case this of
              Other_object \<Rightarrow> ([IsTokenValid_call token], Some (TypeError ''getLoginUiUrl''))
            | Strategy_object \<Rightarrow>
                ([IsTokenValid_call token,
                  Redirect (login_location E (self_openam self)
                    (effective_callbackUrl self options))], None))"
  using assms
  by (simp add: authenticate_def qualify_callbackUrl_def token_checked_def Let_def
      split: receiver.splits)

text \<open>
  A relative callback URL, when no global \<open>callbackURL\<close> exists: the invocation ends in
  the exception of \<open>utils.originalURL\<close>, or else in the ReferenceError.
\<close>

lemma authenticate_relative_callbackUrl:
  assumes "\<not> truthy (query_param req ''error'')"
    and "effective_callbackUrl self options \<noteq> []"
    and "missing (url_parse_protocol E (effective_callbackUrl self options))"
    and "global_callbackURL E = None"
  shows "authenticate E self req options =
           ([], Some (case originalURL E req of
                        Inl e \<Rightarrow> e | Inr original \<Rightarrow> ReferenceError ''callbackURL''))"
  using assms
  by (simp add: authenticate_def qualify_callbackUrl_def Let_def split: sum.splits)

text \<open>
  Whatever the inputs, a redirect that authenticate signals carries the effective
  callback URL as it was given: no branch ever uses a qualified URL.
\<close>

lemma redirect_goto_is_unqualified:
  assumes "Redirect location \<in> set (fst (authenticate E self req options))"
  shows "location = login_location E (self_openam self) (effective_callbackUrl self options)"
  using assms loadUserProfile_no_Redirect [of location E self _ req]
  by (auto simp: authenticate_def qualify_callbackUrl_def token_checked_def Let_def
      split: if_splits sum.splits option.splits prod.splits receiver.splits)

text \<open>
  With a \<open>code\<close> parameter and no Cookie header, whatever the callback URL, the
  invocation ends in an exception and signals nothing.
\<close>

lemma authenticate_without_cookie_header_no_outcome:
  assumes "\<not> truthy (query_param req ''error'')"
    and "truthy (query_param req ''code'')"
    and "headers_cookie req = None"
  shows "snd (authenticate E self req options) \<noteq> None
       \<and> outcomes (authenticate E self req options) = []"
  using assms
  by (auto simp: authenticate_def qualify_callbackUrl_def outcomes_def Let_def
      split: sum.splits option.splits)

text \<open>
  A \<open>skipUserProfile\<close> function that raises ends the invocation after the validity
  check: nothing is fetched, verify is not invoked and nothing is signalled.
\<close>

lemma raising_skipUserProfile_escapes:
  assumes "valid_token_request E self req options token"
    and "skip_resolution self token = Inl x"
  shows "authenticate E self req options = ([IsTokenValid_call token], Some x)"
    and "getAttributes_calls (authenticate E self req options) = 0"
    and "verify_profiles (authenticate E self req options) = []"
    and "outcomes (authenticate E self req options) = []"
  using assms(2)
  by (simp_all add: authenticate_profile_resolution [OF assms(1)] loadUserProfile_skip
      getAttributes_calls_def verify_profiles_def outcomes_def)

lemma valid_cookie_request_valid:
  "valid_token_request example_env example_strategy valid_cookie_request None (Str ''tok123'')"
  by (simp add: valid_token_request_def query_param_def effective_callbackUrl_def
      example_defs url_defs cookie_defs)

subsection \<open>How many outcomes\<close>

text \<open>
  With a verify function that calls its continuation at most once and returns
  normally, no invocation signals more than one outcome.
\<close>

lemma profile_loaded_at_most_one:
  assumes "\<And>profile. length (v_calls (self_verify self req token profile)) \<le> 1"
  shows "length (filter is_outcome (fst (profile_loaded self req token a))) \<le> 1"
  using assms by (cases a) (simp add: Let_def)

lemma loadUserProfile_at_most_one:
  assumes "\<And>profile. length (v_calls (self_verify self req token profile)) \<le> 1"
    and "\<And>profile. v_throws (self_verify self req token profile) = None"
  shows "length (filter is_outcome
           (fst (loadUserProfile E self token (profile_loaded self req token)))) \<le> 1"
proof -
  have returns: "snd (profile_loaded self req token a) = None" for a
    using assms(2) by (cases a) (simp add: Let_def)
  have once: "(case profile_loaded self req token a of
        (evs, None) \<Rightarrow> (evs, None)
      | (evs, Some e) \<Rightarrow> emit evs (profile_loaded self req token (e, Undefined)))
      = profile_loaded self req token a" for a
    using returns [of a] by (cases "profile_loaded self req token a") simp
  show ?thesis
    using profile_loaded_at_most_one [OF assms(1)]
    by (simp add: loadUserProfile_skip userProfile_def once del: profile_loaded.simps
        split: prod.splits sum.splits)
qed

lemma authenticate_at_most_one_outcome:
  assumes "\<And>token profile. length (v_calls (self_verify self req token profile)) \<le> 1"
    and "\<And>token profile. v_throws (self_verify self req token profile) = None"
  shows "length (outcomes (authenticate E self req options)) \<le> 1"
proof -
  have load: "length (filter is_outcome
      (fst (loadUserProfile E self token (profile_loaded self req token)))) \<le> 1" for token
    by (rule loadUserProfile_at_most_one) (rule assms)+
  show ?thesis
    using load
    by (simp add: authenticate_def qualify_callbackUrl_def token_checked_def outcomes_def Let_def
        split: sum.splits option.splits prod.splits receiver.splits)
qed

text \<open>
  A verify function that raises after it has called its continuation is answered
  twice: the exception passes through \<open>done(null, profile)\<close>, which stands inside the
  \<open>try\<close> of \<open>userProfile\<close>, and the \<open>catch\<close> calls \<open>done(e)\<close>.
\<close>

lemma throwing_verify_signals_twice:
  "outcomes (authenticate example_env throwing_strategy valid_cookie_request None)
     = [Success bob_profile Undefined, Error (JsError ''boom'')]"
  by (simp add: run_defs example_defs url_defs cookie_defs)

section \<open>The claims\<close>

subsection \<open>Failures of profile resolution\<close>




subsection \<open>A code parameter without a usable session\<close>

text \<open>
  C1. Every invocation of authenticate signals exactly one of redirect, success, fail
  and error, never none and never more than one. The code signals none for the
  request \<open>?code=true\<close> whose Cookie header is \<open>lang=en; theme=dark\<close>: the header
  parses, the session cookie is not in it, and the \<open>if\<close> that tests for the cookie
  has no \<open>else\<close>. The invocation returns normally with no channel invoked.
\<close>

theorem authenticate_signals_nothing_without_session_cookie:
  "outcomes (authenticate example_env example_strategy
       (callback_request (Some ''lang=en; theme=dark'')) None) = []
   \<and> snd (authenticate example_env example_strategy
       (callback_request (Some ''lang=en; theme=dark'')) None) = None"
  by (simp add: run_defs example_defs url_defs cookie_defs)

text \<open>
  C2. A request with a \<open>code\<close> parameter whose cookies do not contain the session
  cookie is redirected to the login page, as a request without \<open>code\<close> is. The code
  does not redirect: for \<open>?code=true\<close> with the Cookie header \<open>other=x\<close> the whole
  run is empty (lemma \<open>authenticate_without_session_cookie\<close> is the general fact), where
  the same deployment redirects the request without \<open>code\<close> (lemma
  \<open>login_request_redirects\<close>).
\<close>

theorem code_without_session_cookie_is_not_redirected:
  "authenticate example_env example_strategy (callback_request (Some ''other=x'')) None
     = ([], None)"
  by (simp add: run_defs example_defs url_defs cookie_defs)

text \<open>
  C3. A request with a \<open>code\<close> parameter and a session cookie whose token the client
  reports invalid is redirected to the login page, and neither fail nor error is
  signalled. The code raises instead: the invalid branch is written with \<open>this\<close>
  where the valid branch uses \<open>self\<close>, and in a callback that the client calls as a
  plain function \<open>this._openam\<close> is undefined. For the cookie
  \<open>iPlanetDirectoryPro=expired\<close> the run is the validity check followed by a TypeError
  that escapes; no channel is invoked (lemma \<open>authenticate_invalid_token\<close> is the
  general fact).
\<close>

theorem invalid_token_raises_instead_of_redirecting:
  "authenticate example_env example_strategy
       (callback_request (Some ''iPlanetDirectoryPro=expired; other=x'')) None
     = ([IsTokenValid_call (Str ''expired'')], Some (TypeError ''getLoginUiUrl''))"
  by (simp add: run_defs example_defs url_defs cookie_defs)

subsection \<open>Relative callback URLs\<close>

text \<open>
  C5. The effective callback URL is the per-request override when given, else the
  configured default, and a relative one is qualified against the URL of the request
  before it goes into the \<open>goto\<close> parameter. The code never qualifies: the assignment
  that should do it names \<open>callbackURL\<close>, not \<open>callbackUrl\<close>. With the configured
  callback URL \<open>/auth/openam/callback\<close> the first visit ends in a ReferenceError and
  no redirect; and were a global \<open>callbackURL\<close> to exist, the global would be
  assigned and the redirect would carry the relative URL unchanged (lemma
  \<open>redirect_goto_is_unqualified\<close> is the general fact).
\<close>

theorem relative_callbackUrl_is_not_qualified:
  "authenticate example_env relative_strategy login_request None
     = ([], Some (ReferenceError ''callbackURL''))
   \<and> authenticate global_env relative_strategy login_request None
     = ([Global_callbackURL_assigned ''http://app.example.net:3000/elsewhere'',
         Redirect ''http://sso.example.net/openam/UI/Login?goto=%2Fauth%2Fopenam%2Fcallback%3Fcode%3Dtrue''],
        None)"
  by (simp add: run_defs example_defs url_defs)

text \<open>
  C9. A request without a \<open>code\<close> parameter (and without an \<open>error\<close> parameter) is
  redirected to the login page with \<open>goto\<close> equal to the resolved callback URL
  followed by \<open>?code=true\<close>. With a callback URL that has a protocol the code does so
  (lemmas \<open>authenticate_no_code_absolute\<close> and \<open>spec_getLoginUiUrl_goto\<close>). With a
  relative one it does not: for the first visit with the per-request override
  \<open>/auth/openam/callback\<close> the invocation ends in the ReferenceError of the
  misspelt assignment, and nothing is signalled.
\<close>

theorem no_code_with_relative_override_raises:
  "authenticate example_env example_strategy login_request
       (Some \<lparr>auth_callbackUrl = Some ''/auth/openam/callback''\<rparr>)
     = ([], Some (ReferenceError ''callbackURL''))"
  by (simp add: run_defs example_defs url_defs)

subsection \<open>A code parameter without a Cookie header\<close>

text \<open>
  The claim C10 as it stands fails on a request that also has an \<open>error\<close> parameter:
  the first statement of authenticate signals fail and returns before the cookies are
  looked at.
\<close>

theorem error_parameter_precedes_cookie_split:
  "authenticate example_env example_strategy
     \<lparr>query = Obj [(''error'', Str ''access_denied''), (''code'', Str ''true'')],
      headers_cookie = None\<rparr> None
   = ([Fail Undefined], None)"
  by (simp add: run_defs example_defs url_defs)

text \<open>
  C10, amended. For a request with a \<open>code\<close> parameter, no \<open>error\<close> parameter and
  no Cookie header, and an effective callback URL that has a protocol, authenticate
  raises the TypeError of the unguarded \<open>req.headers.cookie.split\<close> before anything
  else has happened: none of the four channels is invoked.
\<close>

theorem authenticate_without_cookie_header_raises:
  assumes "\<not> truthy (query_param req ''error'')"
    and "truthy (query_param req ''code'')"
    and "\<not> missing (url_parse_protocol E (effective_callbackUrl self options))"
    and "headers_cookie req = None"
  shows "authenticate E self req options = ([], Some (TypeError ''split''))"
  using assms
  by (simp add: authenticate_def qualify_callbackUrl_def Let_def)

theorem authenticate_without_cookie_header_witness:
  "\<not> truthy (query_param (callback_request None) ''error'')
   \<and> truthy (query_param (callback_request None) ''code'')
   \<and> \<not> missing (url_parse_protocol example_env (effective_callbackUrl example_strategy None))
   \<and> headers_cookie (callback_request None) = None
   \<and> authenticate example_env example_strategy (callback_request None) None
     = ([], Some (TypeError ''split''))"
  using authenticate_without_cookie_header_raises
      [of "callback_request None" example_env example_strategy None]
  by (simp add: query_param_def effective_callbackUrl_def example_defs url_defs)

subsection \<open>The profile\<close>

text \<open>
  The claim C4 as it stands names the key \<open>rawAttributes\<close>. The profile that the code
  builds has no such property; it keeps the attributes under \<open>_raw\<close>.
\<close>

theorem profile_has_no_rawAttributes_key:
  "(case build_profile bob_attributes of
      Inl e \<Rightarrow> Inl e | Inr profile \<Rightarrow> get_prop profile ''rawAttributes'') = Inr Undefined
   \<and> (case build_profile bob_attributes of
      Inl e \<Rightarrow> Inl e | Inr profile \<Rightarrow> get_prop profile ''_raw'') = Inr bob_attributes"
  by (simp add: build_profile_def bob_attributes_def)

text \<open>
  C4, amended. For every attribute mapping \<open>data\<close> that \<open>getAttributes\<close> returns without
  an error, the profile has \<open>id = data.tokenid\<close>, \<open>username = data.uid\<close>,
  \<open>displayName = data.cn\<close>, \<open>name.familyName = data.sn\<close>,
  \<open>name.givenName = data.givenname\<close>, \<open>email = data.mail\<close> and the whole of
  \<open>data\<close> under the key \<open>_raw\<close>, and \<open>userProfile\<close> hands exactly this profile to its
  callback, with a null error (the callback being one that returns normally). Every
  plain object is such a mapping (lemma \<open>build_profile_Obj\<close>).
\<close>

theorem userProfile_normalizes_attributes:
  assumes "getAttributes E (self_openam self) token = (gerr, data)"
    and "\<not> truthy gerr"
    and "get_prop data ''tokenid'' = Inr tokenid"
    and "get_prop data ''uid'' = Inr uid"
    and "get_prop data ''cn'' = Inr cn"
    and "get_prop data ''sn'' = Inr sn"
    and "get_prop data ''givenname'' = Inr givenname"
    and "get_prop data ''mail'' = Inr mail"
    and "profile =
           Obj [(''id'', tokenid), (''username'', uid), (''displayName'', cn),
                (''name'', Obj [(''familyName'', sn), (''givenName'', givenname)]),
                (''email'', mail), (''_raw'', data)]"
    and "snd (done (Null, profile)) = None"
  shows "build_profile data = Inr profile
       \<and> userProfile E self token done = emit [GetAttributes_call token] (done (Null, profile))"
proof -
  have built: "build_profile data = Inr profile"
    using assms(3-9) by (simp add: build_profile_def)
  moreover have "userProfile E self token done
      = emit [GetAttributes_call token] (done (Null, profile))"
    using assms(1,2,10) built
    by (cases "done (Null, profile)") (simp add: userProfile_def)
  ultimately show ?thesis by simp
qed

text \<open>
  The scenario of the spec: Bob's attributes give Bob's profile, and the sample
  application, handed that profile, succeeds with it.
\<close>

theorem userProfile_normalizes_bob:
  "getAttributes example_env (self_openam example_strategy) (Str ''tok123'')
     = (Null, bob_attributes)
   \<and> build_profile bob_attributes = Inr bob_profile
   \<and> userProfile example_env example_strategy (Str ''tok123'')
        (profile_loaded example_strategy valid_cookie_request (Str ''tok123''))
      = ([GetAttributes_call (Str ''tok123''),
          Verify_call valid_cookie_request (Str ''tok123'') bob_profile,
          Success bob_profile Undefined], None)"
proof -
  have g: "getAttributes example_env (self_openam example_strategy) (Str ''tok123'')
      = (Null, bob_attributes)"
    by (simp add: example_defs)
  have d: "profile_loaded example_strategy valid_cookie_request (Str ''tok123'') (Null, bob_profile)
      = ([Verify_call valid_cookie_request (Str ''tok123'') bob_profile,
          Success bob_profile Undefined], None)"
    by (simp add: example_strategy_def example_verify_def bob_profile_def)
  have p: "get_prop bob_attributes ''tokenid'' = Inr (Str ''t1'')"
    "get_prop bob_attributes ''uid'' = Inr (Str ''bob'')"
    "get_prop bob_attributes ''cn'' = Inr (Str ''Bob Smith'')"
    "get_prop bob_attributes ''sn'' = Inr (Str ''Smith'')"
    "get_prop bob_attributes ''givenname'' = Inr (Str ''Bob'')"
    "get_prop bob_attributes ''mail'' = Inr (Str ''bob@x.com'')"
    by (simp_all add: bob_attributes_def)
  show ?thesis
    using userProfile_normalizes_attributes [OF g _ p, of bob_profile
        "profile_loaded example_strategy valid_cookie_request (Str ''tok123'')"] d g
    by (simp add: bob_profile_def)
qed

subsection \<open>A valid token\<close>

text \<open>
  The claim C6 as it stands promises one call of verify for every request with a
  valid token. When the fetch fails, \<open>getAttributes\<close> has been invoked once and verify
  is not invoked at all: the callback returns through \<open>self.error\<close>.
\<close>

theorem failed_fetch_skips_verify:
  "getAttributes_calls (authenticate failing_env example_strategy valid_cookie_request None) = 1
   \<and> verify_profiles (authenticate failing_env example_strategy valid_cookie_request None) = []"
  by (simp add: run_defs example_defs url_defs cookie_defs)

text \<open>
  C6, amended. For a request that reaches profile resolution with a valid token, and
  a verify function that returns normally:
  \<^item> when \<open>skipUserProfile\<close> reports an error, \<open>getAttributes\<close> and verify are not
    invoked;
  \<^item> when it resolves truthy, \<open>getAttributes\<close> is not invoked and verify is invoked
    exactly once, with \<open>profile = undefined\<close>;
  \<^item> when it resolves falsy, \<open>getAttributes\<close> is invoked exactly once, and verify is
    invoked exactly once with the normalized profile if the fetch and the mapping
    succeed, and not at all if either fails.

  These are the cases in which \<open>skipUserProfile\<close> is a value or a function that
  returns or reports; for one that raises, see lemma
  \<open>raising_skipUserProfile_escapes\<close>.
\<close>

theorem valid_token_fetch_and_verify:
  assumes "valid_token_request E self req options token"
    and "skip_resolution self token = Inr (serr, skip)"
    and "getAttributes E (self_openam self) token = (gerr, data)"
    and "\<forall>profile. v_throws (self_verify self req token profile) = None"
  shows "(truthy serr \<longrightarrow>
            getAttributes_calls (authenticate E self req options) = 0
          \<and> verify_profiles (authenticate E self req options) = [])
       \<and> (\<not> truthy serr \<and> truthy skip \<longrightarrow>
            getAttributes_calls (authenticate E self req options) = 0
          \<and> verify_profiles (authenticate E self req options) = [Undefined])
       \<and> (\<not> truthy serr \<and> \<not> truthy skip \<longrightarrow>
            getAttributes_calls (authenticate E self req options) = 1
          \<and> verify_profiles (authenticate E self req options) =
              (if truthy gerr then []
               else case build_profile data of Inl e \<Rightarrow> [] | Inr profile \<Rightarrow> [profile]))"
proof -
  note run = authenticate_profile_resolution [OF assms(1)] loadUserProfile_skip assms(2)
    getAttributes_calls_def verify_profiles_def
  have skip_failed: "truthy serr \<longrightarrow>
      getAttributes_calls (authenticate E self req options) = 0
      \<and> verify_profiles (authenticate E self req options) = []"
    by (simp add: run)
  have skipped: "\<not> truthy serr \<and> truthy skip \<longrightarrow>
      getAttributes_calls (authenticate E self req options) = 0
      \<and> verify_profiles (authenticate E self req options) = [Undefined]"
    by (simp add: run Let_def)
  have fetched: "\<not> truthy serr \<and> \<not> truthy skip \<longrightarrow>
      getAttributes_calls (authenticate E self req options) = 1
      \<and> verify_profiles (authenticate E self req options) =
          (if truthy gerr then []
           else case build_profile data of Inl e \<Rightarrow> [] | Inr profile \<Rightarrow> [profile])"
    using assms(4)
    by (auto simp: run userProfile_def assms(3) Let_def dest: build_profile_truthy
        split: sum.splits)
  from skip_failed skipped fetched show ?thesis by blast
qed

text \<open>
  On the sample deployment: the fetch skipped, the fetch made and mapped, the fetch
  answered with no data, and a failing asynchronous \<open>skipUserProfile\<close>.
\<close>

theorem valid_token_fetch_and_verify_witness:
  "valid_token_request example_env skipping_strategy valid_cookie_request None (Str ''tok123'')
   \<and> valid_token_request example_env example_strategy valid_cookie_request None (Str ''tok123'')
   \<and> valid_token_request nullish_env example_strategy valid_cookie_request None (Str ''tok123'')
   \<and> valid_token_request example_env async_failing_strategy valid_cookie_request None
       (Str ''tok123'')
   \<and> getAttributes_calls (authenticate example_env skipping_strategy valid_cookie_request None) = 0
   \<and> verify_profiles (authenticate example_env skipping_strategy valid_cookie_request None)
       = [Undefined]
   \<and> getAttributes_calls (authenticate example_env example_strategy valid_cookie_request None) = 1
   \<and> verify_profiles (authenticate example_env example_strategy valid_cookie_request None)
       = [bob_profile]
   \<and> getAttributes_calls (authenticate nullish_env example_strategy valid_cookie_request None) = 1
   \<and> verify_profiles (authenticate nullish_env example_strategy valid_cookie_request None) = []
   \<and> getAttributes_calls
        (authenticate example_env async_failing_strategy valid_cookie_request None) = 0
   \<and> verify_profiles
        (authenticate example_env async_failing_strategy valid_cookie_request None) = []"
proof -
  have v1: "valid_token_request example_env skipping_strategy valid_cookie_request None
      (Str ''tok123'')"
    and v2: "valid_token_request example_env example_strategy valid_cookie_request None
      (Str ''tok123'')"
    and v3: "valid_token_request nullish_env example_strategy valid_cookie_request None
      (Str ''tok123'')"
    and v4: "valid_token_request example_env async_failing_strategy valid_cookie_request None
      (Str ''tok123'')"
    by (simp_all add: valid_token_request_def query_param_def effective_callbackUrl_def
        example_defs url_defs cookie_defs)
  have s1: "skip_resolution skipping_strategy (Str ''tok123'') = Inr (Null, Bool True)"
    and s2: "skip_resolution example_strategy (Str ''tok123'') = Inr (Null, Bool False)"
    and s4: "skip_resolution async_failing_strategy (Str ''tok123'')
      = Inr (JsError ''lookup failed'', Undefined)"
    by (simp_all add: skip_resolution_def example_defs)
  have g1: "getAttributes example_env (self_openam skipping_strategy) (Str ''tok123'')
      = (Null, bob_attributes)"
    and g2: "getAttributes example_env (self_openam example_strategy) (Str ''tok123'')
      = (Null, bob_attributes)"
    and g3: "getAttributes nullish_env (self_openam example_strategy) (Str ''tok123'')
      = (Null, Undefined)"
    and g4: "getAttributes example_env (self_openam async_failing_strategy) (Str ''tok123'')
      = (Null, bob_attributes)"
    by (simp_all add: example_defs)
  have t1: "\<forall>profile. v_throws (self_verify skipping_strategy valid_cookie_request
      (Str ''tok123'') profile) = None"
    and t2: "\<forall>profile. v_throws (self_verify example_strategy valid_cookie_request
      (Str ''tok123'') profile) = None"
    and t4: "\<forall>profile. v_throws (self_verify async_failing_strategy valid_cookie_request
      (Str ''tok123'') profile) = None"
    by (simp_all add: example_defs)
  have b: "build_profile bob_attributes = Inr bob_profile"
    "build_profile Undefined = Inl (TypeError ''tokenid'')"
    by (simp_all add: build_profile_def bob_attributes_def bob_profile_def)
  show ?thesis
    using valid_token_fetch_and_verify [OF v1 s1 g1 t1]
      valid_token_fetch_and_verify [OF v2 s2 g2 t2]
      valid_token_fetch_and_verify [OF v3 s2 g3 t2]
      valid_token_fetch_and_verify [OF v4 s4 g4 t4] b v1 v2 v3 v4
    by simp
qed

subsection \<open>The continuation of verify\<close>



end
